theory Spec2Isabelle
  imports Main "HOL-Library.AList"
begin

section \<open>JavaScript values, strings and JSON text\<close>

text \<open>
  Strings of the program are modelled as \<open>string\<close> (a list of 8-bit characters; text
  outside ASCII is its UTF-8 byte sequence). Numbers are integers: every number the
  modelled code builds itself (\<open>Math.floor(Date.now() / 1000)\<close>, the limits of the
  agent, the capacity of the reminder table) is one.
\<close>

datatype jsval =
    JUndefined
  | JNull
  | JBool bool
  | JNum int
  | JStr string
  | JArr "jsval list"
  | JObj "(string \<times> jsval) list"

text \<open>
  The errors the modelled code can raise or receive. \<open>ToolInputValidationError\<close> is the
  framework's distinguished tool error; \<open>SyntaxError\<close> is what \<open>JSON.parse\<close> throws and
  \<open>TypeError\<close> what a property read of \<open>undefined\<close> or \<open>null\<close> throws;
  \<open>ERR_HTTP_HEADERS_SENT\<close> is Node's error for a header set after the head of the
  response has been written; \<open>Rejection name message\<close> is any other error an external
  collaborator rejects with.
\<close>

datatype error =
    ToolInputValidationError string
  | SyntaxError string
  | TypeError string
  | ERR_HTTP_HEADERS_SENT
  | Rejection string string

definition js_error_string :: "string \<Rightarrow> string \<Rightarrow> string" where
  "js_error_string name msg =
     (if msg = [] then name else if name = [] then msg else name @ '': '' @ msg)"

text \<open>\<open>error.toString()\<close>: the name of the error, a colon, its message.\<close>

fun error_toString :: "error \<Rightarrow> string" where
  "error_toString (ToolInputValidationError m) = js_error_string ''ToolInputValidationError'' m"
| "error_toString (SyntaxError m) = js_error_string ''SyntaxError'' m"
| "error_toString (TypeError m) = js_error_string ''TypeError'' m"
| "error_toString ERR_HTTP_HEADERS_SENT =
     js_error_string ''Error'' ''Cannot set headers after they are sent to the client''"
| "error_toString (Rejection n m) = js_error_string n m"

definition digit_char :: "nat \<Rightarrow> char" where
  "digit_char d = char_of (of_char (CHR ''0'') + d)"

fun show_nat :: "nat \<Rightarrow> string" where
  "show_nat n = (if n < 10 then [digit_char n] else show_nat (n div 10) @ [digit_char (n mod 10)])"

declare show_nat.simps [simp del]

text \<open>
  \<open>String(n)\<close> for an integer \<open>n\<close>: its decimal digits (the form JavaScript prints for
  every integer of magnitude below \<open>10^21\<close>).
\<close>

definition Number_toString :: "int \<Rightarrow> string" where
  "Number_toString i = (if i < 0 then CHR ''-'' # show_nat (nat (- i)) else show_nat (nat i))"

definition hex_char :: "nat \<Rightarrow> char" where
  "hex_char d = (if d < 10 then digit_char d else char_of (of_char (CHR ''a'') + (d - 10)))"

text \<open>
  The escaping of one character inside a JSON string, as \<open>JSON.stringify\<close> does it: the
  quote and the backslash get a backslash, the control characters their short escape or
  \<open>\u00XX\<close>, every other character stands for itself.
\<close>

definition quote_char :: "char \<Rightarrow> string" where
  "quote_char c =
     (if c = CHR 0x22 then [CHR 0x5C, CHR 0x22]
      else if c = CHR 0x5C then [CHR 0x5C, CHR 0x5C]
      else if c = CHR 0x08 then [CHR 0x5C, CHR ''b'']
      else if c = CHR 0x0C then [CHR 0x5C, CHR ''f'']
      else if c = CHR 0x0A then [CHR 0x5C, CHR ''n'']
      else if c = CHR 0x0D then [CHR 0x5C, CHR ''r'']
      else if c = CHR 0x09 then [CHR 0x5C, CHR ''t'']
      else if (of_char c :: nat) < 0x20
        then [CHR 0x5C, CHR ''u'', CHR ''0'', CHR ''0'',
              hex_char ((of_char c :: nat) div 16), hex_char ((of_char c :: nat) mod 16)]
      else [c])"

definition quote_string :: "string \<Rightarrow> string" where
  "quote_string s = CHR 0x22 # concat (map quote_char s) @ [CHR 0x22]"

fun join :: "string \<Rightarrow> string list \<Rightarrow> string" where
  "join sep [] = []"
| "join sep [x] = x"
| "join sep (x # y # ys) = x @ sep @ join sep (y # ys)"

text \<open>
  \<open>JSON.stringify\<close>. An \<open>undefined\<close> element of an array is written \<open>null\<close>, an
  \<open>undefined\<close> member of an object is left out. (At top level \<open>JSON.stringify(undefined)\<close>
  is the value \<open>undefined\<close>, which every use in this program would turn into the text
  \<open>undefined\<close>.)
\<close>

fun JSON_stringify :: "jsval \<Rightarrow> string"
  and stringify_elements :: "jsval list \<Rightarrow> string list"
  and stringify_members :: "(string \<times> jsval) list \<Rightarrow> string list" where
  "JSON_stringify JUndefined = ''undefined''"
| "JSON_stringify JNull = ''null''"
| "JSON_stringify (JBool b) = (if b then ''true'' else ''false'')"
| "JSON_stringify (JNum i) = Number_toString i"
| "JSON_stringify (JStr s) = quote_string s"
| "JSON_stringify (JArr xs) = ''['' @ join '','' (stringify_elements xs) @ '']''"
| "JSON_stringify (JObj kvs) = ''{'' @ join '','' (stringify_members kvs) @ ''}''"
| "stringify_elements [] = []"
| "stringify_elements (x # xs) =
     (if x = JUndefined then ''null'' else JSON_stringify x) # stringify_elements xs"
| "stringify_members [] = []"
| "stringify_members ((k, v) # kvs) =
     (if v = JUndefined then stringify_members kvs
      else (quote_string k @ '':'' @ JSON_stringify v) # stringify_members kvs)"

definition is_space :: "char \<Rightarrow> bool" where
  "is_space c = (c = CHR '' '' \<or> c = CHR 0x09 \<or> c = CHR 0x0A \<or> c = CHR 0x0B
                 \<or> c = CHR 0x0C \<or> c = CHR 0x0D)"

text \<open>\<open>s.trim()\<close>, on the ASCII white space.\<close>

definition js_trim :: "string \<Rightarrow> string" where
  "js_trim s = rev (dropWhile is_space (rev (dropWhile is_space s)))"

section \<open>The HTTP response object\<close>

text \<open>
  The response \<open>res\<close> of one request, with the part of Node's and Express's behaviour
  that the handlers rely on: \<open>statusCode\<close> and \<open>headers\<close> are the head still to be
  sent, \<open>headersSent\<close> tells that the head has gone out, \<open>chunks\<close> are the texts
  passed to \<open>res.write\<close> in order, \<open>body\<close> is the payload passed to \<open>res.json\<close>, and
  \<open>finished\<close> tells that the response has been ended.
\<close>

record response =
  statusCode :: nat
  headers :: "(string \<times> string) list"
  headersSent :: bool
  chunks :: "string list"
  body :: "string option"
  finished :: bool

definition new_response :: response where
  "new_response = \<lparr>statusCode = 200, headers = [], headersSent = False, chunks = [],
                    body = None, finished = False\<rparr>"

text \<open>\<open>res.setHeader(k, v)\<close>: Node throws once the head has been sent.\<close>

definition res_setHeader :: "string \<Rightarrow> string \<Rightarrow> response \<Rightarrow> error + response" where
  "res_setHeader k v r =
     (if headersSent r then Inl ERR_HTTP_HEADERS_SENT
      else Inr (r\<lparr>headers := AList.update k v (headers r)\<rparr>))"

text \<open>\<open>res.write(s)\<close>: sends the head if it has not gone yet, then the chunk.\<close>

definition res_write :: "string \<Rightarrow> response \<Rightarrow> response" where
  "res_write s r =
     (if finished r then r else r\<lparr>headersSent := True, chunks := chunks r @ [s]\<rparr>)"

definition res_end :: "response \<Rightarrow> response" where
  "res_end r = r\<lparr>headersSent := True, finished := True\<rparr>"

definition res_status :: "nat \<Rightarrow> response \<Rightarrow> response" where
  "res_status n r = r\<lparr>statusCode := n\<rparr>"

text \<open>
  \<open>res.json(v)\<close> of Express: the content type becomes \<open>application/json\<close> only when
  none has been set, the type gets its \<open>charset\<close> parameter, and the serialised value is
  sent as the whole body, which ends the response. Setting the header throws once the
  head has been sent. (The \<open>ETag\<close> and \<open>Content-Length\<close> headers are left out.)
\<close>

definition res_json :: "jsval \<Rightarrow> response \<Rightarrow> error + response" where
  "res_json v r =
     (if headersSent r then Inl ERR_HTTP_HEADERS_SENT
      else
        let ct = (case map_of (headers r) ''Content-Type'' of
                    None \<Rightarrow> ''application/json'' | Some t \<Rightarrow> t)
        in Inr (r\<lparr>headers := AList.update ''Content-Type'' (ct @ ''; charset=utf-8'') (headers r),
                   headersSent := True, body := Some (JSON_stringify v), finished := True\<rparr>))"

section \<open>The server: \<open>index.ts\<close>\<close>

record message =
  role :: string
  content :: string

datatype tool = FlightCostLookupTool | FlightBookingTool | CalculatorTool | ReminderTool

record execution =
  maxRetriesPerStep :: nat
  totalMaxRetries :: nat
  maxIterations :: nat

text \<open>
  What the agent runtime sends to its observers during a run: the \<open>error\<close>, \<open>retry\<close>,
  \<open>update\<close> (with \<open>update.key\<close> and \<open>update.value\<close>) and \<open>partialUpdate\<close> events.
\<close>

datatype agent_event =
    EvError string
  | EvRetry
  | EvUpdate string string
  | EvPartialUpdate string

text \<open>
  The agent runtime is an external collaborator. One run is described by what the
  runtime is given (\<open>agent_args\<close>: the arguments of \<open>new BeeAgent\<close>, with the content of
  the memory object at that moment, and the arguments of \<open>run\<close>) and by what it does
  (\<open>agent_behaviour\<close>: the events it emits in order, whether the run resolves with
  \<open>response.result.text\<close> or rejects, and the content it leaves in the memory).
\<close>

record agent_args =
  a_llm :: string
  a_memory :: "message list"
  a_tools :: "tool list"
  a_prompt :: string
  a_execution :: execution

record agent_behaviour =
  emitted :: "agent_event list"
  outcome :: "error + string"
  memory_after :: "message list"

text \<open>
  The environment of the server: every external call takes the number of external calls
  made before it (\<open>tick\<close>), so that two calls may answer differently.
\<close>

record env =
  uuidv4 :: "nat \<Rightarrow> string"
  Date_now :: "nat \<Rightarrow> nat"
  ChatModel_fromName :: "nat \<Rightarrow> string \<Rightarrow> error + string"
  BeeAgent_run :: "nat \<Rightarrow> agent_args \<Rightarrow> agent_behaviour"

text \<open>
  The state of the process: the shared \<open>memory\<close> (the module-level \<open>TokenMemory\<close>), the
  log \<open>agents\<close> of the agents constructed and run so far, and the response \<open>res\<close> of the
  request being handled. Output to the console is not modelled.
\<close>

record world =
  tick :: nat
  memory :: "message list"
  agents :: "agent_args list"
  res :: response

definition ASSISTANT_RESPONSE :: string where "ASSISTANT_RESPONSE = ''thread.message.delta''"
definition THINKING_STEP :: string where "THINKING_STEP = ''thread.run.step.delta''"
definition TOOL_CALL :: string where "TOOL_CALL = ''thread.run.step.delta''"
definition TOOL_RESPONSE :: string where "TOOL_RESPONSE = ''thread.run.step.delta''"

definition nl :: string where "nl = [CHR 0x0A]"

text \<open>The object \<open>content\<close> that \<open>sseEvent\<close> builds, read at tick \<open>t\<close>.\<close>

definition sse_content :: "env \<Rightarrow> nat \<Rightarrow> string \<Rightarrow> string \<Rightarrow> jsval" where
  "sse_content e t targetStr messageType =
     JObj [(''id'', JStr (''run-'' @ take 8 (uuidv4 e t))),
           (''object'', JStr messageType),
           (''thread_id'', JStr (uuidv4 e (t + 1))),
           (''model'', JStr ''crewai-example''),
           (''created'', JNum (int (Date_now e (t + 2) div 1000))),
           (''choices'', JArr [JObj [(''delta'',
               JObj [(''role'', JStr ''assistant''), (''content'', JStr targetStr)])]])]"

definition sse_frame :: "env \<Rightarrow> nat \<Rightarrow> string \<Rightarrow> string \<Rightarrow> string" where
  "sse_frame e t targetStr messageType =
     ''data: '' @ JSON_stringify (sse_content e t targetStr messageType) @ nl @ nl"

definition sseEvent :: "env \<Rightarrow> string \<Rightarrow> string \<Rightarrow> world \<Rightarrow> world" where
  "sseEvent e targetStr messageType w =
     w\<lparr>tick := tick w + 3, res := res_write (sse_frame e (tick w) targetStr messageType) (res w)\<rparr>"

definition dashes :: string where
  "dashes = nl @ ''-------------------------------------------'' @ nl"

text \<open>The listener of \<open>update\<close>: four tests of \<open>update.key\<close>, one after the other.\<close>

definition on_update :: "env \<Rightarrow> string \<Rightarrow> string \<Rightarrow> world \<Rightarrow> world" where
  "on_update e key val w =
     (let w1 = (if key = ''thought''
                then sseEvent e (''<h3>Agent is thinking: </h3> <br/>'' @ val @ nl @ nl @ '' <br/>'')
                       THINKING_STEP w
                else w);
          w2 = (if key = ''tool_name''
                then sseEvent e (''<h3>Tool <i>'' @ val @ ''</i> is being invoked.</h3> '' @ nl @ nl)
                       TOOL_CALL w1
                else w1);
          w3 = (if key = ''tool_input''
                then sseEvent e (''<h3>Tool call initialized with input:</h3> '' @ nl @ dashes
                                 @ ''```'' @ val @ ''```'' @ nl @ nl @ dashes)
                       THINKING_STEP w2
                else w2);
          w4 = (if key = ''tool_output''
                then sseEvent e (''<h3>Tool returned output:</h3> '' @ nl @ dashes
                                 @ ''```'' @ val @ ''```'' @ nl @ nl @ dashes)
                       TOOL_RESPONSE w3
                else w3)
      in w4)"

fun on_event :: "env \<Rightarrow> agent_event \<Rightarrow> world \<Rightarrow> world" where
  "on_event e (EvError err) w = w"
| "on_event e EvRetry w = w"
| "on_event e (EvUpdate key val) w = on_update e key val w"
| "on_event e (EvPartialUpdate val) w = w"

fun observe :: "env \<Rightarrow> agent_event list \<Rightarrow> world \<Rightarrow> world" where
  "observe e [] w = w"
| "observe e (ev # evs) w = observe e evs (on_event e ev w)"

definition systemPrompt :: "string \<Rightarrow> string" where
  "systemPrompt query =
     js_trim (nl
       @ ''You are an agent designed to assist the user to the best of your abilities using the tools you have available.'' @ nl
       @ ''Carefully interpret their request and execute the most appropriate actions to help them.'' @ nl
       @ ''--------------------------------------------------------'' @ nl
       @ ''# User Wants to:'' @ nl
       @ query @ nl
       @ ''  '')"

text \<open>
  What \<open>handleQueryMain\<close> passes to \<open>new BeeAgent\<close> and to \<open>run\<close>; \<open>mem\<close> is the content
  of the shared memory object at the construction.
\<close>

definition agent_input :: "string \<Rightarrow> message list \<Rightarrow> string \<Rightarrow> agent_args" where
  "agent_input llm mem query =
     \<lparr>a_llm = llm, a_memory = mem,
      a_tools = [FlightCostLookupTool, FlightBookingTool, CalculatorTool],
      a_prompt = systemPrompt query,
      a_execution = \<lparr>maxRetriesPerStep = 3, totalMaxRetries = 10, maxIterations = 20\<rparr>\<rparr>"

text \<open>
  \<open>handleQueryMain\<close>: the model is loaded, the shared memory is reset, the agent is
  constructed and run, the observers see the events of the run in the order of their
  emission, and the promise settles as the run does.
\<close>

definition handleQueryMain :: "env \<Rightarrow> string \<Rightarrow> world \<Rightarrow> (error + string) \<times> world" where
  "handleQueryMain e query w =
     (case ChatModel_fromName e (tick w) ''watsonx:ibm/granite-3-8b-instruct'' of
        Inl err \<Rightarrow> (Inl err, w\<lparr>tick := tick w + 1\<rparr>)
      | Inr llm \<Rightarrow>
          let w1 = w\<lparr>tick := tick w + 1, memory := []\<rparr>;
              args = agent_input llm (memory w1) query;
              run = BeeAgent_run e (tick w1) args;
              w2 = w1\<lparr>tick := tick w1 + 1, agents := agents w1 @ [args]\<rparr>;
              w3 = observe e (emitted run) w2
          in (outcome run, w3\<lparr>memory := memory_after run\<rparr>))"

definition done_frame :: string where
  "done_frame = ''data: [DONE]'' @ nl @ nl"

definition set_stream_headers :: "world \<Rightarrow> error + world" where
  "set_stream_headers w =
     (case res_setHeader ''Content-Type'' ''text/event-stream'' (res w) of
        Inl err \<Rightarrow> Inl err
      | Inr r1 \<Rightarrow>
          (case res_setHeader ''Cache-Control'' ''no-cache'' r1 of
             Inl err \<Rightarrow> Inl err
           | Inr r2 \<Rightarrow>
               (case res_setHeader ''Connection'' ''keep-alive'' r2 of
                  Inl err \<Rightarrow> Inl err
                | Inr r3 \<Rightarrow> Inr (w\<lparr>res := r3\<rparr>))))"

text \<open>
  \<open>res.status(n).json(v)\<close>; the result \<open>Some err\<close> is the error thrown, \<open>None\<close> a normal
  return.
\<close>

definition status_json :: "nat \<Rightarrow> jsval \<Rightarrow> world \<Rightarrow> error option \<times> world" where
  "status_json n v w =
     (let r = res_status n (res w)
      in case res_json v r of
           Inl err \<Rightarrow> (Some err, w\<lparr>res := r\<rparr>)
         | Inr r' \<Rightarrow> (None, w\<lparr>res := r'\<rparr>))"

text \<open>
  The handler of \<open>GET /query\<close>. The argument is \<open>req.query.q\<close> (\<open>None\<close> when the
  parameter is absent); \<open>!userQuery\<close> holds of an absent and of an empty \<open>q\<close>. The
  result \<open>Some err\<close> says that the handler's promise rejects with \<open>err\<close>.
\<close>

definition get_query :: "env \<Rightarrow> string option \<Rightarrow> world \<Rightarrow> error option \<times> world" where
  "get_query e userQuery w =
     (case set_stream_headers w of
        Inl err \<Rightarrow> (Some err, w)
      | Inr w1 \<Rightarrow>
          if userQuery = None \<or> userQuery = Some []
          then status_json 400
                 (JObj [(''error'', JStr (''Missing query parameter '' @ [CHR 0x22] @ ''q'' @ [CHR 0x22]))]) w1
          else
            (case handleQueryMain e (the userQuery) w1 of
               (Inr result, w2) \<Rightarrow>
                 (let w3 = sseEvent e result ASSISTANT_RESPONSE w2;
                      w4 = w3\<lparr>res := res_write done_frame (res w3)\<rparr>
                  in (None, w4\<lparr>res := res_end (res w4)\<rparr>))
             | (Inl err, w2) \<Rightarrow>
                 status_json 500 (JObj [(''error'', JStr (error_toString err))]) w2))"

text \<open>
  The handler of \<open>POST /\<close>. The arguments are the header \<open>x-ibm-thread-id\<close> and
  \<open>req.body.messages\<close> (\<open>None\<close> when the body has no such member, where reading
  \<open>messages.length\<close> throws). There is no \<open>try\<close> in this handler.
\<close>

definition flatten_messages :: "message list \<Rightarrow> string" where
  "flatten_messages messages =
     foldl (\<lambda>acc cur. acc @ (role cur @ '': '') @ content cur @ nl) [] messages"

definition post_root ::
  "env \<Rightarrow> string option \<Rightarrow> message list option \<Rightarrow> world \<Rightarrow> error option \<times> world" where
  "post_root e thread_header messages w =
     (let w0 = (if thread_header = None \<or> thread_header = Some [] then w\<lparr>tick := tick w + 1\<rparr> else w)
      in case messages of
           None \<Rightarrow> (Some (TypeError ''Cannot read properties of undefined (reading 'length')''), w0)
         | Some ms \<Rightarrow>
             (let context = flatten_messages ms
              in case set_stream_headers w0 of
                   Inl err \<Rightarrow> (Some err, w0)
                 | Inr w1 \<Rightarrow>
                     (case handleQueryMain e context w1 of
                        (Inl err, w2) \<Rightarrow> (Some err, w2)
                      | (Inr result, w2) \<Rightarrow>
                          (let w3 = sseEvent e (''<h2> Final Response: </h2> <br/>'' @ result)
                                      ASSISTANT_RESPONSE w2;
                               w4 = w3\<lparr>res := res_write done_frame (res w3)\<rparr>
                           in (None, w4\<lparr>res := res_end (res w4)\<rparr>)))))"

text \<open>Requests are served one after the other, each with a response object of its own.\<close>

datatype request =
    GetQuery "string option"
  | PostRoot "string option" "message list option"

fun handle :: "env \<Rightarrow> request \<Rightarrow> world \<Rightarrow> error option \<times> world" where
  "handle e (GetQuery q) w = get_query e q (w\<lparr>res := new_response\<rparr>)"
| "handle e (PostRoot h ms) w = post_root e h ms (w\<lparr>res := new_response\<rparr>)"


section \<open>The tools\<close>

datatype tool_output = StringToolOutput string | JSONToolOutput jsval

subsection \<open>FlightCostLookupTool\<close>


text \<open>
  The network: \<open>requests\<close> are the addresses of the outbound \<open>GET\<close> calls made so far,
  in order. \<open>axios.get\<close> is a parameter: called for the \<open>n\<close>-th time with an address, it
  resolves with the data of the response or rejects.
\<close>

record net =
  net_tick :: nat
  requests :: "string list"




subsection \<open>JavaScript operations that \<open>ReminderTool\<close> uses\<close>

text \<open>Truthiness, as the test \<open>validId ? ... : ...\<close> takes it.\<close>

fun js_truthy :: "jsval \<Rightarrow> bool" where
  "js_truthy JUndefined = False"
| "js_truthy JNull = False"
| "js_truthy (JBool b) = b"
| "js_truthy (JNum i) = (i \<noteq> 0)"
| "js_truthy (JStr s) = (s \<noteq> [])"
| "js_truthy (JArr xs) = True"
| "js_truthy (JObj kvs) = True"

text \<open>
  \<open>String(v)\<close>, as a template literal takes it; an array joins its elements with a comma,
  where \<open>null\<close> and \<open>undefined\<close> give the empty text.
\<close>

fun js_toString :: "jsval \<Rightarrow> string"
  and js_join_items :: "jsval list \<Rightarrow> string list" where
  "js_toString JUndefined = ''undefined''"
| "js_toString JNull = ''null''"
| "js_toString (JBool b) = (if b then ''true'' else ''false'')"
| "js_toString (JNum i) = Number_toString i"
| "js_toString (JStr s) = s"
| "js_toString (JArr xs) = join '','' (js_join_items xs)"
| "js_toString (JObj kvs) = ''[object Object]''"
| "js_join_items [] = []"
| "js_join_items (x # xs) =
     (if x = JUndefined \<or> x = JNull then [] else js_toString x) # js_join_items xs"

text \<open>An element of an array, as \<open>Array.prototype.join\<close> writes it.\<close>

definition join_item :: "jsval \<Rightarrow> string" where
  "join_item v = (if v = JUndefined \<or> v = JNull then [] else js_toString v)"

text \<open>
  Reading a property \<open>v.k\<close> (also by destructuring) throws on \<open>undefined\<close> and \<open>null\<close>;
  an object gives the member or \<open>undefined\<close>; the properties read in this program
  (\<open>total\<close>, \<open>validId\<close>, \<open>notes\<close>, \<open>query\<close>, \<open>params\<close>) do not exist on other values.
\<close>

fun js_get :: "jsval \<Rightarrow> string \<Rightarrow> error + jsval" where
  "js_get JUndefined k = Inl (TypeError (''Cannot read properties of undefined (reading '' @ [CHR 0x27] @ k @ [CHR 0x27] @ '')''))"
| "js_get JNull k = Inl (TypeError (''Cannot read properties of null (reading '' @ [CHR 0x27] @ k @ [CHR 0x27] @ '')''))"
| "js_get (JObj kvs) k = Inr (case map_of kvs k of None \<Rightarrow> JUndefined | Some v \<Rightarrow> v)"
| "js_get v k = Inr JUndefined"

text \<open>\<open>v[0]\<close>.\<close>

fun js_first :: "jsval \<Rightarrow> error + jsval" where
  "js_first (JArr xs) = Inr (case xs of [] \<Rightarrow> JUndefined | x # _ \<Rightarrow> x)"
| "js_first (JStr s) = Inr (case s of [] \<Rightarrow> JUndefined | c # _ \<Rightarrow> JStr [c])"
| "js_first v = js_get v ''0''"

definition is_digit :: "char \<Rightarrow> bool" where
  "is_digit c = (48 \<le> (of_char c :: nat) \<and> (of_char c :: nat) \<le> 57)"

definition digits_value :: "string \<Rightarrow> int" where
  "digits_value s = foldl (\<lambda>acc c. 10 * acc + (int (of_char c) - 48)) 0 s"

text \<open>
  The number that a text stands for in a comparison, for the empty text and for decimal
  integers with an optional sign; \<open>None\<close> is \<open>NaN\<close>. (Texts in other notations of
  numbers are taken as \<open>NaN\<close> here; no such text is compared in the runs considered.)
\<close>

definition string_to_number :: "string \<Rightarrow> int option" where
  "string_to_number s =
     (let t = js_trim s
      in if t = [] then Some 0
         else if hd t = CHR ''-'' \<and> tl t \<noteq> [] \<and> list_all is_digit (tl t) then Some (- digits_value (tl t))
         else if hd t = CHR ''+'' \<and> tl t \<noteq> [] \<and> list_all is_digit (tl t) then Some (digits_value (tl t))
         else if list_all is_digit t then Some (digits_value t)
         else None)"

fun js_toNumber :: "jsval \<Rightarrow> int option" where
  "js_toNumber JUndefined = None"
| "js_toNumber JNull = Some 0"
| "js_toNumber (JBool b) = Some (if b then 1 else 0)"
| "js_toNumber (JNum i) = Some i"
| "js_toNumber (JStr s) = string_to_number s"
| "js_toNumber (JArr xs) = string_to_number (js_toString (JArr xs))"
| "js_toNumber (JObj kvs) = None"

text \<open>\<open>v >= n\<close> for a number \<open>n\<close>: false when \<open>v\<close> is not a number.\<close>

definition js_ge :: "jsval \<Rightarrow> int \<Rightarrow> bool" where
  "js_ge v n = (case js_toNumber v of None \<Rightarrow> False | Some i \<Rightarrow> n \<le> i)"

definition toLowerCase :: "string \<Rightarrow> string" where
  "toLowerCase s =
     map (\<lambda>c. if 65 \<le> (of_char c :: nat) \<and> (of_char c :: nat) \<le> 90
              then char_of ((of_char c :: nat) + 32) else c) s"

fun js_includes :: "string \<Rightarrow> string \<Rightarrow> bool" where
  "js_includes [] t = (t = [])"
| "js_includes (c # cs) t = (take (length t) (c # cs) = t \<or> js_includes cs t)"

text \<open>
  The regular expression \<open>/\{(?:[^{}]|\{[^{}]*\})*\}/s\<close>. After the opening brace,
  \<open>brace_body\<close> matches \<open>(?:[^{}]|\{[^{}]*\})*\}\<close> at the start of a text and gives the
  text matched; its flag says that the scan is inside the second alternative. The two
  alternatives start with different characters and neither starts with a closing brace, so
  the greedy star has one way to go: it stops at the first closing brace outside an inner
  pair, and fails at an opening brace inside one and at the end of the text.
\<close>

fun brace_body :: "bool \<Rightarrow> string \<Rightarrow> string option" where
  "brace_body inner [] = None"
| "brace_body inner (c # cs) =
     (if c = CHR ''}'' then (if inner then map_option ((#) c) (brace_body False cs) else Some [c])
      else if c = CHR ''{'' then (if inner then None else map_option ((#) c) (brace_body True cs))
      else map_option ((#) c) (brace_body inner cs))"

text \<open>\<open>text.match(regex)\<close>: the match at the leftmost position that has one.\<close>

fun regex_match :: "string \<Rightarrow> string option" where
  "regex_match [] = None"
| "regex_match (c # cs) =
     (if c = CHR ''{''
      then (case brace_body False cs of Some m \<Rightarrow> Some (c # m) | None \<Rightarrow> regex_match cs)
      else regex_match cs)"

text \<open>\<open>match ? match[0] : ""\<close>.\<close>

definition extracted :: "string \<Rightarrow> string" where
  "extracted text = (case regex_match text of Some m \<Rightarrow> m | None \<Rightarrow> [])"

subsection \<open>ReminderTool\<close>

text \<open>
  The state that the tool works on: the database \<open>db\<close> behind the handle, the statements
  passed to it so far (\<open>sql_log\<close>, each with its parameters) and the calls of language
  models so far (\<open>llm_log\<close>, each with the name of the model and the text sent).
\<close>

record 'db reminder_state =
  db :: 'db
  rtick :: nat
  sql_log :: "(jsval \<times> jsval) list"
  llm_log :: "(string \<times> string) list"

text \<open>
  The collaborators of the tool are parameters: \<open>db_all\<close> is \<open>sqlite3\<close>'s \<open>all\<close> (it gives
  the message of an error or the rows, and the database after the statement),
  \<open>llm_create\<close> is the call of a model (the \<open>n\<close>-th call of the run, the name of the model,
  the text of the system message; it gives the text of the answer or rejects), and
  \<open>JSON_parse\<close> is \<open>JSON.parse\<close> (the message of the \<open>SyntaxError\<close>, or the value).
\<close>

record 'db reminder_env =
  db_all :: "jsval \<Rightarrow> jsval \<Rightarrow> 'db \<Rightarrow> (string + jsval list) \<times> 'db"
  llm_create :: "nat \<Rightarrow> string \<Rightarrow> string \<Rightarrow> error + string"
  JSON_parse :: "string \<Rightarrow> string + jsval"

type_synonym ('a, 'db) action = "'db reminder_state \<Rightarrow> (error + 'a) \<times> 'db reminder_state"

text \<open>Sequencing of two steps (\<open>await\<close>): an error of the first ends the run.\<close>

definition then_do :: "('a, 'db) action \<Rightarrow> ('a \<Rightarrow> ('b, 'db) action) \<Rightarrow> ('b, 'db) action" where
  "then_do m f s = (case m s of (Inl err, s') \<Rightarrow> (Inl err, s') | (Inr a, s') \<Rightarrow> f a s')"

definition ret :: "'a \<Rightarrow> ('a, 'db) action" where
  "ret a s = (Inr a, s)"

definition lift :: "error + 'a \<Rightarrow> ('a, 'db) action" where
  "lift r s = (r, s)"

definition maxReminders :: int where
  "maxReminders = 10"

definition no_input_message :: string where
  "no_input_message = [CHR 0xE2, CHR 0x9A, CHR 0xA0] @ [CHR 0xEF, CHR 0xB8, CHR 0x8F] @ '' No input was found, nothing was done.''"

definition too_many_message :: string where
  "too_many_message = [CHR 0xE2, CHR 0x9A, CHR 0xA0] @ [CHR 0xEF, CHR 0xB8, CHR 0x8F] @ '' You have too many reminders... As per the limit you set, try to complete other tasks first!''"

definition exampleQueries :: string where
  "exampleQueries =
     nl
     @ ''Example SQL queries:'' @ nl
     @ ''1. Add Reminder:'' @ nl
     @ ''   INSERT INTO reminders (name, created_date, original_due_date, active_due_date, priority, description)'' @ nl
     @ ''   VALUES (?, ?, ?, ?, ?, ?);'' @ nl
     @ nl
     @ ''2. Delete Reminder:'' @ nl
     @ ''   DELETE FROM reminders WHERE id = ?;'' @ nl
     @ nl
     @ ''3. Snooze Reminder:'' @ nl
     @ ''   UPDATE reminders SET snoozed_count = snoozed_count + 1, active_due_date = datetime(active_due_date, '+30 minutes') WHERE id = ?;'' @ nl
     @ nl
     @ ''4. Check Reminders:'' @ nl
     @ ''   SELECT * FROM reminders;'' @ nl
     @ ''  ''"

text \<open>\<open>this.query(query, params = [])\<close>: an error of the database becomes a \<open>ToolInputValidationError\<close>.\<close>

definition ReminderTool_query :: "'db reminder_env \<Rightarrow> jsval \<Rightarrow> jsval \<Rightarrow> (string, 'db) action" where
  "ReminderTool_query e sql params s =
     (let ps = (if params = JUndefined then JArr [] else params)
      in case db_all e sql ps (db s) of
           (Inl msg, d) \<Rightarrow>
             (Inl (ToolInputValidationError msg), s\<lparr>db := d, sql_log := sql_log s @ [(sql, ps)]\<rparr>)
         | (Inr rows, d) \<Rightarrow>
             (Inr (JSON_stringify (JArr rows)), s\<lparr>db := d, sql_log := sql_log s @ [(sql, ps)]\<rparr>))"

text \<open>\<open>new OllamaChatModel(model).create(...)\<close> with one system message, and \<open>getTextContent()\<close>.\<close>

definition OllamaChatModel_create :: "'db reminder_env \<Rightarrow> string \<Rightarrow> string \<Rightarrow> (string, 'db) action" where
  "OllamaChatModel_create e model text s =
     (llm_create e (rtick s) model text,
      s\<lparr>rtick := rtick s + 1, llm_log := llm_log s @ [(model, text)]\<rparr>)"

definition JSON_parse_text :: "'db reminder_env \<Rightarrow> string \<Rightarrow> error + jsval" where
  "JSON_parse_text e text = (case JSON_parse e text of Inl msg \<Rightarrow> Inl (SyntaxError msg) | Inr v \<Rightarrow> Inr v)"

definition generate_prompt :: "string \<Rightarrow> string" where
  "generate_prompt taskDescription =
     js_trim (nl
       @ ''You are an expert SQL generator for a reminders database. Based on the task description and the following example queries, generate the appropriate SQL query and parameters.'' @ nl
       @ nl
       @ exampleQueries
       @ nl
       @ nl
       @ ''Task: ''
       @ taskDescription
       @ nl
       @ nl
       @ ''Respond ONLY with JSON in the following format:'' @ nl
       @ ''{'' @ nl
       @ ''  '' @ [CHR 0x22] @ ''query'' @ [CHR 0x22] @ '': '' @ [CHR 0x22] @ ''SQL QUERY HERE'' @ [CHR 0x22] @ '','' @ nl
       @ ''  '' @ [CHR 0x22] @ ''params'' @ [CHR 0x22] @ '': [PARAMETERS_ARRAY_HERE]'' @ nl
       @ ''}'' @ nl
       @ ''    '')"

definition generateQuery :: "'db reminder_env \<Rightarrow> string \<Rightarrow> (jsval, 'db) action" where
  "generateQuery e taskDescription =
     then_do (OllamaChatModel_create e ''codellama:7b'' (generate_prompt taskDescription)) (\<lambda>text.
       lift (JSON_parse_text e (extracted text)))"

definition classify_prompt :: "string \<Rightarrow> string" where
  "classify_prompt naturalLanguageTask =
     join nl
       [''You are an orchestrator that converts natural language reminder requests into structured task descriptions.'',
        ''Your goal is to classify the user's intent into one of the following categories, prefixed exactly as shown:'',
        [],
        ''1. Add a Reminder:'',
        ''2. Delete a Reminder:'',
        ''3. Snooze a Reminder:'',
        ''4. Check Reminders:'',
        [],
        ''Respond with the most appropriate category and rephrase the task clearly.'',
        ''Do NOT add any extra explanations or text.'',
        [],
        ''User Task: '',
        naturalLanguageTask,
        ''Structured Rephrased Task: '']"

definition dbContext_of :: "string \<Rightarrow> string" where
  "dbContext_of currentDB =
     nl @ ''------------------------------------------------------'' @ nl
     @ currentDB
     @ nl @ ''------------------------------------------------------'' @ nl"

definition validation_prompt :: "string \<Rightarrow> string \<Rightarrow> string" where
  "validation_prompt dbContext structuredTask =
     join nl
       [''You are a validator ensuring that the structured task refers to valid reminders in the database.'',
        ''If the task references an ID that doesn't exist, find the closest valid ID or entry.'',
        ''Provide ONLY the validated ID if applicable, or null if none.'',
        [],
        ''# Current Database:'',
        dbContext,
        [],
        ''# Structured Task:'',
        structuredTask,
        [],
        ''Respond ONLY with the JSON format:'',
        ''{'' @ [CHR 0x22] @ ''validId'' @ [CHR 0x22] @ '': number | null, '' @ [CHR 0x22] @ ''notes'' @ [CHR 0x22] @ '': '' @ [CHR 0x22] @ ''optional notes if correction was applied'' @ [CHR 0x22] @ ''}'']"

definition final_prompt :: "string \<Rightarrow> jsval \<Rightarrow> string \<Rightarrow> string" where
  "final_prompt naturalLanguageTask generated_query sqlResult =
     join nl
       [''You are an assistant providing a clear success confirmation for reminder tasks.'',
        [],
        ''# Original Task'',
        naturalLanguageTask,
        [],
        ''# Generated SQL Query'',
        join_item generated_query,
        [],
        ''# SQL Result'',
        sqlResult,
        [],
        ''Based on this information, reply to the user confirming the outcome of their request in a friendly and helpful way. Avoid technical details about SQL and keep the response clear and simple.'',
        ''If there is no SQL Result go to off of, assume success.'']"

text \<open>
  The run from the answer of the validating model on: the JSON object is extracted and
  parsed, the statement is generated and executed, and the last model words the answer.
\<close>

definition after_validation ::
  "'db reminder_env \<Rightarrow> string \<Rightarrow> string \<Rightarrow> string \<Rightarrow> (tool_output, 'db) action" where
  "after_validation e naturalLanguageTask structuredTask validationResponse =
     then_do (lift (JSON_parse_text e (extracted (js_trim validationResponse)))) (\<lambda>parsed.
     then_do (lift (js_get parsed ''validId'')) (\<lambda>validId.
     then_do (generateQuery e
                (if js_truthy validId
                 then structuredTask @ '' (Validated Target ID: '' @ js_toString validId @ '')''
                 else structuredTask)) (\<lambda>generated.
     then_do (lift (js_get generated ''query'')) (\<lambda>generated_query.
     then_do (lift (js_get generated ''params'')) (\<lambda>generated_params.
     then_do (ReminderTool_query e generated_query generated_params) (\<lambda>sqlResult.
     then_do (OllamaChatModel_create e ''granite3.1-dense:8b''
                (final_prompt naturalLanguageTask generated_query sqlResult)) (\<lambda>finalResponse.
       ret (StringToolOutput (js_trim finalResponse)))))))))"

text \<open>The run after the test of the capacity.\<close>

definition after_capacity :: "'db reminder_env \<Rightarrow> string \<Rightarrow> (tool_output, 'db) action" where
  "after_capacity e naturalLanguageTask =
     then_do (OllamaChatModel_create e ''granite3.1-dense:8b'' (classify_prompt naturalLanguageTask)) (\<lambda>structuredTaskResponse.
     then_do (ReminderTool_query e (JStr ''SELECT * FROM reminders;'') JUndefined) (\<lambda>currentDB.
     then_do (OllamaChatModel_create e ''granite3.1-dense:8b''
                (validation_prompt (dbContext_of currentDB) (js_trim structuredTaskResponse))) (\<lambda>validationResponse.
       after_validation e naturalLanguageTask (js_trim structuredTaskResponse) validationResponse)))"

text \<open>
  \<open>ReminderTool._run\<close>. The input is \<open>input.naturalLanguageInput\<close> (\<open>None\<close> when it is
  \<open>undefined\<close> or \<open>null\<close>). The count of the reminders is read only when the lower-cased
  text contains \<open>add\<close>.
\<close>

definition ReminderTool_run :: "'db reminder_env \<Rightarrow> string option \<Rightarrow> (tool_output, 'db) action" where
  "ReminderTool_run e input =
     (let naturalLanguageTask = (case input of None \<Rightarrow> [] | Some s \<Rightarrow> s)
      in if naturalLanguageTask = [] then ret (StringToolOutput no_input_message)
         else if js_includes (toLowerCase naturalLanguageTask) ''add''
         then
           then_do (ReminderTool_query e (JStr ''SELECT COUNT(*) as total FROM reminders;'') JUndefined) (\<lambda>total.
           then_do (lift (JSON_parse_text e total)) (\<lambda>parsed.
           then_do (lift (js_first parsed)) (\<lambda>row.
           then_do (lift (js_get row ''total'')) (\<lambda>totalReminders.
             if js_ge totalReminders maxReminders
             then ret (StringToolOutput too_many_message)
             else after_capacity e naturalLanguageTask))))
         else after_capacity e naturalLanguageTask)"

section \<open>The stream of one request\<close>

text \<open>
  The frame that the listener of \<open>update\<close> writes for a key and a value: the text and
  the label of the frame, \<open>None\<close> for a key that writes none.
\<close>

definition update_frame :: "string \<Rightarrow> string \<Rightarrow> (string \<times> string) option" where
  "update_frame key val =
     (if key = ''thought''
        then Some (''<h3>Agent is thinking: </h3> <br/>'' @ val @ nl @ nl @ '' <br/>'', THINKING_STEP)
      else if key = ''tool_name''
        then Some (''<h3>Tool <i>'' @ val @ ''</i> is being invoked.</h3> '' @ nl @ nl, TOOL_CALL)
      else if key = ''tool_input''
        then Some (''<h3>Tool call initialized with input:</h3> '' @ nl @ dashes
                   @ ''```'' @ val @ ''```'' @ nl @ nl @ dashes, THINKING_STEP)
      else if key = ''tool_output''
        then Some (''<h3>Tool returned output:</h3> '' @ nl @ dashes
                   @ ''```'' @ val @ ''```'' @ nl @ nl @ dashes, TOOL_RESPONSE)
      else None)"

text \<open>
  The frames of a run: one for each \<open>update\<close> event whose key writes one, in the order
  of the events; \<open>t\<close> is the tick at which the first is written.
\<close>

fun event_frames :: "env \<Rightarrow> nat \<Rightarrow> agent_event list \<Rightarrow> string list" where
  "event_frames e t [] = []"
| "event_frames e t (EvUpdate key val # evs) =
     (case update_frame key val of
        None \<Rightarrow> event_frames e t evs
      | Some (str, label) \<Rightarrow> sse_frame e t str label # event_frames e (t + 3) evs)"
| "event_frames e t (ev # evs) = event_frames e t evs"



text \<open>
  The query that \<open>POST /\<close> is said to forward: every message of the payload, in order,
  one line \<open>role: content\<close> each.
\<close>

definition context_lines :: "message list \<Rightarrow> string" where
  "context_lines messages = concat (map (\<lambda>m. role m @ '': '' @ content m @ nl) messages)"

text \<open>The body of the answer to a request without \<open>q\<close>.\<close>

definition missing_q_body :: jsval where
  "missing_q_body = JObj [(''error'', JStr (''Missing query parameter '' @ [CHR 0x22] @ ''q'' @ [CHR 0x22]))]"

subsection \<open>Sample environments\<close>

text \<open>
  Two environments for concrete runs. In \<open>ok_env\<close> the run emits a thought, a retry and
  an update that writes no frame, and resolves; in \<open>fail_env\<close> it emits a thought and
  rejects. Both leave a message in the shared memory. \<open>w0\<close> is a process whose memory
  still holds an earlier conversation.
\<close>

definition sample_uuid :: string where
  "sample_uuid = ''1b9d6bcd-bbfd-4b2d-9b5d-ab8dfbbd4bed''"

definition ok_env :: env where
  "ok_env = \<lparr>uuidv4 = (\<lambda>n. sample_uuid), Date_now = (\<lambda>n. 1700000000000 + n),
             ChatModel_fromName = (\<lambda>n name. Inr name),
             BeeAgent_run = (\<lambda>n a.
               \<lparr>emitted = [EvUpdate ''thought'' ''plan'', EvRetry, EvUpdate ''final_answer'' ''Hello''],
                outcome = Inr ''Hello'',
                memory_after = [\<lparr>role = ''user'', content = a_prompt a\<rparr>]\<rparr>)\<rparr>"

definition fail_env :: env where
  "fail_env = \<lparr>uuidv4 = (\<lambda>n. sample_uuid), Date_now = (\<lambda>n. 1700000000000 + n),
               ChatModel_fromName = (\<lambda>n name. Inr name),
               BeeAgent_run = (\<lambda>n a.
                 \<lparr>emitted = [EvUpdate ''thought'' ''plan''],
                  outcome = Inl (Rejection ''AgentError'' ''iteration budget exhausted''),
                  memory_after = [\<lparr>role = ''user'', content = a_prompt a\<rparr>]\<rparr>)\<rparr>"

definition w0 :: world where
  "w0 = \<lparr>tick = 0, memory = [\<lparr>role = ''user'', content = ''an earlier conversation''\<rparr>],
         agents = [], res = new_response\<rparr>"

subsection \<open>Sample inputs of the tools\<close>




text \<open>
  A small database for concrete runs of \<open>ReminderTool\<close>: the table is the list of its
  rows, and three statements are understood (the count, the listing, and an insertion
  of a name). \<open>toy_llm\<close> answers as models that follow their instructions:
  a classification, the JSON object of the validation, the JSON object of the
  generated statement (after a few words), and a confirmation. \<open>prose_llm\<close> answers the
  validation and the generation with a sentence that holds no JSON object.
  \<open>toy_parse\<close> is \<open>JSON.parse\<close> on the texts that occur in these runs.
\<close>

definition insert_sql :: string where
  "insert_sql = ''INSERT INTO reminders (name) VALUES (?);''"

definition toy_db_all :: "jsval \<Rightarrow> jsval \<Rightarrow> jsval list \<Rightarrow> (string + jsval list) \<times> jsval list" where
  "toy_db_all sql params rows =
     (if sql = JStr ''SELECT COUNT(*) as total FROM reminders;''
        then (Inr [JObj [(''total'', JNum (int (length rows)))]], rows)
      else if sql = JStr ''SELECT * FROM reminders;'' then (Inr rows, rows)
      else if sql = JStr insert_sql
        then (Inr [], rows @ [JObj [(''name'', (case js_first params of Inr v \<Rightarrow> v | Inl err \<Rightarrow> JNull))]])
      else (Inl ''SQLITE_ERROR: statement not supported'', rows))"

definition validation_reply :: string where
  "validation_reply = ''{'' @ [CHR 0x22] @ ''validId'' @ [CHR 0x22] @ '': null, '' @ [CHR 0x22] @ ''notes'' @ [CHR 0x22] @ '': '' @ [CHR 0x22, CHR 0x22] @ ''}''"

definition generation_reply :: string where
  "generation_reply = ''Here is the SQL: {'' @ [CHR 0x22] @ ''query'' @ [CHR 0x22] @ '': '' @ [CHR 0x22] @ insert_sql @ [CHR 0x22]
     @ '', '' @ [CHR 0x22] @ ''params'' @ [CHR 0x22] @ '': ['' @ [CHR 0x22] @ ''call mom'' @ [CHR 0x22] @ '']}''"

definition toy_parse :: "string \<Rightarrow> string + jsval" where
  "toy_parse text =
     (if text = validation_reply then Inr (JObj [(''validId'', JNull), (''notes'', JStr [])])
      else if text = extracted generation_reply
        then Inr (JObj [(''query'', JStr insert_sql), (''params'', JArr [JStr ''call mom''])])
      else if text = JSON_stringify (JArr [JObj [(''total'', JNum 10)]])
        then Inr (JArr [JObj [(''total'', JNum 10)]])
      else if text = [] then Inl ''Unexpected end of JSON input''
      else Inl ''Unexpected token'')"

definition toy_llm :: "nat \<Rightarrow> string \<Rightarrow> string \<Rightarrow> error + string" where
  "toy_llm n model text =
     (if n = 0 then Inr ''1. Add a Reminder: call mom at 6pm''
      else if n = 1 then Inr validation_reply
      else if n = 2 then Inr generation_reply
      else Inr ''Your reminder to call mom is set. '')"

definition prose_llm :: "nat \<Rightarrow> string \<Rightarrow> string \<Rightarrow> error + string" where
  "prose_llm n model text =
     (if n = 0 then Inr ''4. Check Reminders: list all reminders''
      else Inr ''I could not find a matching reminder.'')"

definition toy_env :: "jsval list reminder_env" where
  "toy_env = \<lparr>db_all = toy_db_all, llm_create = toy_llm, JSON_parse = toy_parse\<rparr>"

definition prose_env :: "jsval list reminder_env" where
  "prose_env = \<lparr>db_all = toy_db_all, llm_create = prose_llm, JSON_parse = toy_parse\<rparr>"

definition ten_reminders :: "jsval list reminder_state" where
  "ten_reminders = \<lparr>db = replicate 10 (JObj [(''name'', JStr ''water the plants'')]),
                     rtick = 0, sql_log = [], llm_log = []\<rparr>"

definition no_reminders :: "jsval list reminder_state" where
  "no_reminders = \<lparr>db = [], rtick = 0, sql_log = [], llm_log = []\<rparr>"

section \<open>Lemmas about the server\<close>

subsection \<open>What the observers write\<close>

lemma on_update_eq:
  "on_update e key val w =
     (case update_frame key val of None \<Rightarrow> w | Some (str, label) \<Rightarrow> sseEvent e str label w)"
  by (simp add: on_update_def update_frame_def Let_def)

lemma sseEvent_fields [simp]:
  "tick (sseEvent e s l w) = tick w + 3"
  "memory (sseEvent e s l w) = memory w"
  "agents (sseEvent e s l w) = agents w"
  "finished (res (sseEvent e s l w)) = finished (res w)"
  "statusCode (res (sseEvent e s l w)) = statusCode (res w)"
  "body (res (sseEvent e s l w)) = body (res w)"
  "headers (res (sseEvent e s l w)) = headers (res w)"
  by (simp_all add: sseEvent_def res_write_def)

lemma sseEvent_chunks:
  "\<not> finished (res w) \<Longrightarrow> chunks (res (sseEvent e s l w)) = chunks (res w) @ [sse_frame e (tick w) s l]"
  by (simp add: sseEvent_def res_write_def)

lemma on_event_eq:
  "on_event e ev w =
     (case ev of EvUpdate key val \<Rightarrow>
        (case update_frame key val of None \<Rightarrow> w | Some (str, label) \<Rightarrow> sseEvent e str label w)
      | _ \<Rightarrow> w)"
  by (cases ev) (simp_all add: on_update_eq)

lemma observe_chunks:
  "\<not> finished (res w) \<Longrightarrow>
   chunks (res (observe e evs w)) = chunks (res w) @ event_frames e (tick w) evs
   \<and> tick (observe e evs w) = tick w + 3 * length (event_frames e (tick w) evs)
   \<and> \<not> finished (res (observe e evs w))"
proof (induction evs arbitrary: w)
  case Nil
  then show ?case by simp
next
  case (Cons ev evs)
  show ?case
  proof (cases "\<exists>key val str label. ev = EvUpdate key val \<and> update_frame key val = Some (str, label)")
    case True
    then obtain key val str label
      where ev: "ev = EvUpdate key val" and uf: "update_frame key val = Some (str, label)"
      by blast
    have nf: "\<not> finished (res (sseEvent e str label w))" using Cons.prems by simp
    from Cons.IH[OF nf] Cons.prems ev uf show ?thesis
      by (simp add: on_update_eq sseEvent_chunks)
  next
    case False
    then have same: "on_event e ev w = w" and fr: "event_frames e (tick w) (ev # evs) = event_frames e (tick w) evs"
      by (cases ev; cases "update_frame (case ev of EvUpdate k v \<Rightarrow> k | _ \<Rightarrow> []) (case ev of EvUpdate k v \<Rightarrow> v | _ \<Rightarrow> [])"; auto simp: on_update_eq)+
    from Cons.IH[OF Cons.prems] same fr show ?thesis by simp
  qed
qed

lemma observe_memory [simp]: "memory (observe e evs w) = memory w"
  by (induction evs arbitrary: w) (simp_all add: on_event_eq split: agent_event.split option.split)

lemma observe_agents [simp]: "agents (observe e evs w) = agents w"
  by (induction evs arbitrary: w) (simp_all add: on_event_eq split: agent_event.split option.split)

lemma observe_statusCode [simp]: "statusCode (res (observe e evs w)) = statusCode (res w)"
  by (induction evs arbitrary: w) (simp_all add: on_event_eq split: agent_event.split option.split)

lemma observe_body [simp]: "body (res (observe e evs w)) = body (res w)"
  by (induction evs arbitrary: w) (simp_all add: on_event_eq split: agent_event.split option.split)

lemma observe_headers [simp]: "headers (res (observe e evs w)) = headers (res w)"
  by (induction evs arbitrary: w) (simp_all add: on_event_eq split: agent_event.split option.split)



lemma handleQueryMain_loaded:
  assumes llm: "ChatModel_fromName e (tick w) ''watsonx:ibm/granite-3-8b-instruct'' = Inr llm"
    and nf: "\<not> finished (res w)"
  shows "fst (handleQueryMain e q w) = outcome (BeeAgent_run e (tick w + 1) (agent_input llm [] q))"
    and "chunks (res (snd (handleQueryMain e q w))) =
           chunks (res w) @ event_frames e (tick w + 2) (emitted (BeeAgent_run e (tick w + 1) (agent_input llm [] q)))"
    and "tick (snd (handleQueryMain e q w)) =
           tick w + 2 + 3 * length (event_frames e (tick w + 2) (emitted (BeeAgent_run e (tick w + 1) (agent_input llm [] q))))"
    and "\<not> finished (res (snd (handleQueryMain e q w)))"
    and "agents (snd (handleQueryMain e q w)) = agents w @ [agent_input llm [] q]"
    and "statusCode (res (snd (handleQueryMain e q w))) = statusCode (res w)"
    and "body (res (snd (handleQueryMain e q w))) = body (res w)"
    and "headers (res (snd (handleQueryMain e q w))) = headers (res w)"
    and "memory (snd (handleQueryMain e q w)) = memory_after (BeeAgent_run e (tick w + 1) (agent_input llm [] q))"
proof -
  let ?w1 = "w\<lparr>tick := tick w + 1, memory := []\<rparr>"
  let ?args = "agent_input llm (memory ?w1) q"
  let ?run = "BeeAgent_run e (tick ?w1) ?args"
  let ?w2 = "?w1\<lparr>tick := tick ?w1 + 1, agents := agents ?w1 @ [?args]\<rparr>"
  have h: "handleQueryMain e q w = (outcome ?run, (observe e (emitted ?run) ?w2)\<lparr>memory := memory_after ?run\<rparr>)"
    by (simp only: handleQueryMain_def llm Let_def sum.case)
  have nf2: "\<not> finished (res ?w2)" using nf by simp
  note oc = observe_chunks[OF nf2, of e "emitted ?run"]
  show "fst (handleQueryMain e q w) = outcome (BeeAgent_run e (tick w + 1) (agent_input llm [] q))"
    by (simp add: h)
  show "chunks (res (snd (handleQueryMain e q w))) = chunks (res w) @ event_frames e (tick w + 2) (emitted (BeeAgent_run e (tick w + 1) (agent_input llm [] q)))"
    using oc by (simp add: h)
  show "tick (snd (handleQueryMain e q w)) = tick w + 2 + 3 * length (event_frames e (tick w + 2) (emitted (BeeAgent_run e (tick w + 1) (agent_input llm [] q))))"
    using oc by (simp add: h)
  show "\<not> finished (res (snd (handleQueryMain e q w)))" using oc by (simp add: h)
  show "agents (snd (handleQueryMain e q w)) = agents w @ [agent_input llm [] q]" by (simp add: h)
  show "statusCode (res (snd (handleQueryMain e q w))) = statusCode (res w)" by (simp add: h)
  show "body (res (snd (handleQueryMain e q w))) = body (res w)" by (simp add: h)
  show "headers (res (snd (handleQueryMain e q w))) = headers (res w)" by (simp add: h)
  show "memory (snd (handleQueryMain e q w)) = memory_after (BeeAgent_run e (tick w + 1) (agent_input llm [] q))"
    by (simp add: h)
qed



subsection \<open>JSON text has no line break\<close>

















section \<open>Properties of the server\<close>

subsection \<open>The handlers on a fresh response\<close>

definition stream_response :: response where
  "stream_response = new_response\<lparr>headers :=
     [(''Content-Type'', ''text/event-stream''), (''Cache-Control'', ''no-cache''),
      (''Connection'', ''keep-alive'')]\<rparr>"

lemma stream_response_fields:
  "statusCode stream_response = 200"
  "headersSent stream_response = False"
  "chunks stream_response = []"
  "body stream_response = None"
  "finished stream_response = False"
  by (simp_all add: stream_response_def new_response_def)

lemma set_stream_headers_fresh:
  "res w = new_response \<Longrightarrow> set_stream_headers w = Inr (w\<lparr>res := stream_response\<rparr>)"
  by (simp add: set_stream_headers_def res_setHeader_def new_response_def stream_response_def)

lemma status_json_agents [simp]: "agents (snd (status_json n v w)) = agents w"
  by (simp add: status_json_def Let_def split: sum.split)

lemma status_json_memory [simp]: "memory (snd (status_json n v w)) = memory w"
  by (simp add: status_json_def Let_def split: sum.split)


declare handle.simps [simp del]


definition after_thread_id :: "string option \<Rightarrow> world \<Rightarrow> world" where
  "after_thread_id th w = (if th = None \<or> th = Some [] then w\<lparr>tick := tick w + 1\<rparr> else w)"

lemma after_thread_id_fields [simp]:
  "tick (after_thread_id th w) = (if th = None \<or> th = Some [] then tick w + 1 else tick w)"
  "agents (after_thread_id th w) = agents w"
  "memory (after_thread_id th w) = memory w"
  "res (after_thread_id th w) = res w"
  by (simp_all add: after_thread_id_def)

lemma post_root_eq:
  "handle e (PostRoot th (Some ms)) w =
     (case handleQueryMain e (flatten_messages ms) ((after_thread_id th w)\<lparr>res := stream_response\<rparr>) of
        (Inl err, w2) \<Rightarrow> (Some err, w2)
      | (Inr result, w2) \<Rightarrow>
          (None, w2\<lparr>tick := tick w2 + 3,
                    res := res_end (res_write done_frame
                             (res_write (sse_frame e (tick w2) (''<h2> Final Response: </h2> <br/>'' @ result)
                                           ASSISTANT_RESPONSE) (res w2)))\<rparr>))"
proof -
  let ?w0 = "if th = None \<or> th = Some [] then w\<lparr>res := new_response\<rparr>\<lparr>tick := tick (w\<lparr>res := new_response\<rparr>) + 1\<rparr> else w\<lparr>res := new_response\<rparr>"
  have r0: "res ?w0 = new_response" by simp
  have eq: "?w0\<lparr>res := stream_response\<rparr> = (after_thread_id th w)\<lparr>res := stream_response\<rparr>"
    by (simp add: after_thread_id_def)
  have "post_root e th (Some ms) (w\<lparr>res := new_response\<rparr>) =
     (case handleQueryMain e (flatten_messages ms) (?w0\<lparr>res := stream_response\<rparr>) of
        (Inl err, w2) \<Rightarrow> (Some err, w2)
      | (Inr result, w2) \<Rightarrow>
          (None, w2\<lparr>tick := tick w2 + 3,
                    res := res_end (res_write done_frame
                             (res_write (sse_frame e (tick w2) (''<h2> Final Response: </h2> <br/>'' @ result)
                                           ASSISTANT_RESPONSE) (res w2)))\<rparr>))"
    unfolding post_root_def Let_def option.case set_stream_headers_fresh[OF r0] sum.case
    by (simp add: sseEvent_def split: prod.split sum.split)
  then show ?thesis unfolding eq by (simp add: handle.simps)
qed




lemma handleQueryMain_not_loaded:
  "ChatModel_fromName e (tick w) ''watsonx:ibm/granite-3-8b-instruct'' = Inl err \<Longrightarrow>
   handleQueryMain e q w = (Inl err, w\<lparr>tick := tick w + 1\<rparr>)"
  by (simp add: handleQueryMain_def)


lemma get_query_missing:
  "q = None \<or> q = Some [] \<Longrightarrow>
   handle e (GetQuery q) w = status_json 400 missing_q_body (w\<lparr>res := stream_response\<rparr>)"
  by (auto simp: handle.simps get_query_def set_stream_headers_fresh missing_q_body_def)





lemma post_root_loaded:
  assumes llm: "ChatModel_fromName e (tick (after_thread_id th w)) ''watsonx:ibm/granite-3-8b-instruct'' = Inr llm"
  shows "agents (snd (handle e (PostRoot th (Some ms)) w)) = agents w @ [agent_input llm [] (flatten_messages ms)]"
    and "outcome (BeeAgent_run e (tick (after_thread_id th w) + 1) (agent_input llm [] (flatten_messages ms))) = Inl err
         \<Longrightarrow> fst (handle e (PostRoot th (Some ms)) w) = Some err
           \<and> chunks (res (snd (handle e (PostRoot th (Some ms)) w))) =
               event_frames e (tick (after_thread_id th w) + 2)
                 (emitted (BeeAgent_run e (tick (after_thread_id th w) + 1) (agent_input llm [] (flatten_messages ms))))
           \<and> \<not> finished (res (snd (handle e (PostRoot th (Some ms)) w)))
           \<and> body (res (snd (handle e (PostRoot th (Some ms)) w))) = None
           \<and> statusCode (res (snd (handle e (PostRoot th (Some ms)) w))) = 200"
proof -
  let ?w1 = "(after_thread_id th w)\<lparr>res := stream_response\<rparr>"
  let ?q = "flatten_messages ms"
  obtain x w2 where h: "handleQueryMain e ?q ?w1 = (x, w2)" by (cases "handleQueryMain e ?q ?w1")
  have llm1: "ChatModel_fromName e (tick ?w1) ''watsonx:ibm/granite-3-8b-instruct'' = Inr llm"
    using llm by simp
  have nf1: "\<not> finished (res ?w1)" by (simp add: stream_response_fields)
  note facts = handleQueryMain_loaded[OF llm1 nf1, of ?q, unfolded h fst_conv snd_conv]
  show "agents (snd (handle e (PostRoot th (Some ms)) w)) = agents w @ [agent_input llm [] ?q]"
    using facts(5) by (cases x) (simp_all add: post_root_eq h)
  show "fst (handle e (PostRoot th (Some ms)) w) = Some err
           \<and> chunks (res (snd (handle e (PostRoot th (Some ms)) w))) =
               event_frames e (tick (after_thread_id th w) + 2)
                 (emitted (BeeAgent_run e (tick (after_thread_id th w) + 1) (agent_input llm [] ?q)))
           \<and> \<not> finished (res (snd (handle e (PostRoot th (Some ms)) w)))
           \<and> body (res (snd (handle e (PostRoot th (Some ms)) w))) = None
           \<and> statusCode (res (snd (handle e (PostRoot th (Some ms)) w))) = 200"
    if bad: "outcome (BeeAgent_run e (tick (after_thread_id th w) + 1) (agent_input llm [] ?q)) = Inl err"
  proof -
    have x: "x = Inl err" using facts(1) bad by simp
    have g: "handle e (PostRoot th (Some ms)) w = (Some err, w2)" by (simp add: post_root_eq h x)
    show ?thesis using facts(2,4,6,7) by (simp add: g stream_response_fields)
  qed
qed

subsection \<open>The sample environments, evaluated\<close>

lemma ok_env_fields:
  "ChatModel_fromName ok_env n name = Inr name"
  "BeeAgent_run ok_env n a =
     \<lparr>emitted = [EvUpdate ''thought'' ''plan'', EvRetry, EvUpdate ''final_answer'' ''Hello''],
      outcome = Inr ''Hello'',
      memory_after = [\<lparr>role = ''user'', content = a_prompt a\<rparr>]\<rparr>"
  by (simp_all add: ok_env_def)

lemma fail_env_fields:
  "ChatModel_fromName fail_env n name = Inr name"
  "BeeAgent_run fail_env n a =
     \<lparr>emitted = [EvUpdate ''thought'' ''plan''],
      outcome = Inl (Rejection ''AgentError'' ''iteration budget exhausted''),
      memory_after = [\<lparr>role = ''user'', content = a_prompt a\<rparr>]\<rparr>"
  by (simp_all add: fail_env_def)

lemma w0_fields:
  "tick w0 = 0"
  "memory w0 = [\<lparr>role = ''user'', content = ''an earlier conversation''\<rparr>]"
  "agents w0 = []"
  "res w0 = new_response"
  by (simp_all add: w0_def)

definition thought_text :: "string \<Rightarrow> string" where
  "thought_text val = ''<h3>Agent is thinking: </h3> <br/>'' @ val @ nl @ nl @ '' <br/>''"


lemma fail_env_frames:
  "event_frames fail_env t (emitted (BeeAgent_run fail_env n a)) = [sse_frame fail_env t (thought_text ''plan'') THINKING_STEP]"
  by (simp add: fail_env_fields update_frame_def thought_text_def)

lemma foldl_context:
  "foldl (\<lambda>acc cur. acc @ (role cur @ '': '') @ content cur @ nl) acc ms = acc @ context_lines ms"
  by (induction ms arbitrary: acc) (simp_all add: context_lines_def)

lemma missing_q_text:
  "JSON_stringify missing_q_body =
     ''{'' @ [CHR 0x22] @ ''error'' @ [CHR 0x22] @ '':'' @ [CHR 0x22] @ ''Missing query parameter ''
       @ [CHR 0x5C, CHR 0x22] @ ''q'' @ [CHR 0x5C, CHR 0x22] @ [CHR 0x22] @ ''}''"
  by (simp add: missing_q_body_def quote_string_def quote_char_def)



section \<open>Properties of the tools\<close>

subsection \<open>The sample inputs, evaluated\<close>



lemma js_includes_nonempty: "js_includes (toLowerCase task) ''add'' \<Longrightarrow> task \<noteq> []"
  by (auto simp: toLowerCase_def)

lemma ex_generation: "extracted generation_reply =
   ''{'' @ [CHR 0x22] @ ''query'' @ [CHR 0x22] @ '': '' @ [CHR 0x22] @ insert_sql @ [CHR 0x22]
     @ '', '' @ [CHR 0x22] @ ''params'' @ [CHR 0x22] @ '': ['' @ [CHR 0x22] @ ''call mom'' @ [CHR 0x22] @ '']}''"
  by (simp add: extracted_def generation_reply_def insert_sql_def)

lemma ex_validation: "extracted (js_trim validation_reply) = validation_reply"
  by (simp add: extracted_def validation_reply_def js_trim_def is_space_def)

lemma ex_prose: "extracted (js_trim ''I could not find a matching reminder.'') = []"
  by (simp add: extracted_def js_trim_def is_space_def)

lemma no_add_in_remind: "\<not> js_includes (toLowerCase ''Remind me to call mom at 6pm'') ''add''"
  by code_simp

lemma add_in_add: "js_includes (toLowerCase ''Add a reminder to call mom'') ''add''"
  by code_simp

lemma no_add_in_check: "\<not> js_includes (toLowerCase ''check my reminders'') ''add''"
  by code_simp


lemma toy_parse_values:
  "toy_parse validation_reply = Inr (JObj [(''validId'', JNull), (''notes'', JStr [])])"
  "toy_parse (extracted generation_reply) =
     Inr (JObj [(''query'', JStr insert_sql), (''params'', JArr [JStr ''call mom''])])"
  "toy_parse (JSON_stringify (JArr [JObj [(''total'', JNum 10)]])) = Inr (JArr [JObj [(''total'', JNum 10)]])"
  "toy_parse [] = Inl ''Unexpected end of JSON input''"
proof -
  show "toy_parse validation_reply = Inr (JObj [(''validId'', JNull), (''notes'', JStr [])])"
    by (simp add: toy_parse_def)
  have ne1: "extracted generation_reply \<noteq> validation_reply"
    by (simp add: ex_generation validation_reply_def)
  show "toy_parse (extracted generation_reply) =
     Inr (JObj [(''query'', JStr insert_sql), (''params'', JArr [JStr ''call mom''])])"
    using ne1 by (simp add: toy_parse_def)
  have ne2: "JSON_stringify (JArr [JObj [(''total'', JNum 10)]]) \<noteq> validation_reply"
    by (simp add: validation_reply_def)
  have ne3: "JSON_stringify (JArr [JObj [(''total'', JNum 10)]]) \<noteq> extracted generation_reply"
    by (simp add: ex_generation)
  show "toy_parse (JSON_stringify (JArr [JObj [(''total'', JNum 10)]])) = Inr (JArr [JObj [(''total'', JNum 10)]])"
    using ne2 ne3 by (simp add: toy_parse_def del: JSON_stringify.simps)
  have ne4: "[] \<noteq> validation_reply" by (simp add: validation_reply_def)
  have ne5: "[] \<noteq> extracted generation_reply" by (simp add: ex_generation)
  show "toy_parse [] = Inl ''Unexpected end of JSON input''"
    using ne4 ne5 by (simp add: toy_parse_def)
qed

lemma trim_final: "js_trim ''Your reminder to call mom is set. '' = ''Your reminder to call mom is set.''"
  by (simp add: js_trim_def is_space_def)

section \<open>Claims about the server\<close>




text \<open>
  Claim C3. For a request to \<open>GET /query\<close> whose \<open>q\<close> is absent or empty, the handler
  returns normally with the status 400, the one body \<open>{"error": "Missing query parameter
  \"q\""}\<close>, no chunk written (no frame of a stream), and the response ended; nothing else
  of the process changes (no model is loaded, no agent runs). The three headers set
  before the test stay in the head of this response.
\<close>

theorem get_query_missing_q:
  assumes "q = None \<or> q = Some []"
  shows "handle e (GetQuery q) w =
     (None, w\<lparr>res := \<lparr>statusCode = 400,
                       headers = [(''Content-Type'', ''text/event-stream; charset=utf-8''),
                                  (''Cache-Control'', ''no-cache''), (''Connection'', ''keep-alive'')],
                       headersSent = True, chunks = [],
                       body = Some (JSON_stringify missing_q_body),
                       finished = True\<rparr>\<rparr>)"
  unfolding get_query_missing[OF assms]
  by (simp add: status_json_def res_status_def res_json_def stream_response_def new_response_def)

theorem get_query_missing_q_witness:
  "handle ok_env (GetQuery None) w0 =
     (None, w0\<lparr>res := \<lparr>statusCode = 400,
                       headers = [(''Content-Type'', ''text/event-stream; charset=utf-8''),
                                  (''Cache-Control'', ''no-cache''), (''Connection'', ''keep-alive'')],
                       headersSent = True, chunks = [],
                       body = Some (JSON_stringify missing_q_body),
                       finished = True\<rparr>\<rparr>)
   \<and> JSON_stringify missing_q_body =
     ''{'' @ [CHR 0x22] @ ''error'' @ [CHR 0x22] @ '':'' @ [CHR 0x22] @ ''Missing query parameter ''
       @ [CHR 0x5C, CHR 0x22] @ ''q'' @ [CHR 0x5C, CHR 0x22] @ [CHR 0x22] @ ''}''"
  using get_query_missing_q [of None ok_env w0] missing_q_text by simp

text \<open>
  Claim C4, evaluated where the code breaks it. On \<open>POST /\<close>, with a run of the agent that
  writes one frame and then rejects, the rejection leaves the handler as it came (there
  is no \<open>try\<close>): no error response is produced (status 200, no body), no \<open>[DONE]\<close> is
  written and the response is not ended.
\<close>

theorem post_root_rejected_run_left_open:
  "fst (handle fail_env (PostRoot None (Some [\<lparr>role = ''user'', content = ''hi''\<rparr>])) w0)
     = Some (Rejection ''AgentError'' ''iteration budget exhausted'')
   \<and> \<not> finished (res (snd (handle fail_env (PostRoot None (Some [\<lparr>role = ''user'', content = ''hi''\<rparr>])) w0)))
   \<and> statusCode (res (snd (handle fail_env (PostRoot None (Some [\<lparr>role = ''user'', content = ''hi''\<rparr>])) w0))) = 200
   \<and> body (res (snd (handle fail_env (PostRoot None (Some [\<lparr>role = ''user'', content = ''hi''\<rparr>])) w0))) = None
   \<and> chunks (res (snd (handle fail_env (PostRoot None (Some [\<lparr>role = ''user'', content = ''hi''\<rparr>])) w0))) =
       [sse_frame fail_env 3 (thought_text ''plan'') THINKING_STEP]"
proof -
  let ?ms = "[\<lparr>role = ''user'', content = ''hi''\<rparr>]"
  have llm: "ChatModel_fromName fail_env (tick (after_thread_id None w0)) ''watsonx:ibm/granite-3-8b-instruct''
               = Inr ''watsonx:ibm/granite-3-8b-instruct''"
    by (rule fail_env_fields)
  have bad: "outcome (BeeAgent_run fail_env (tick (after_thread_id None w0) + 1)
               (agent_input ''watsonx:ibm/granite-3-8b-instruct'' [] (flatten_messages ?ms)))
             = Inl (Rejection ''AgentError'' ''iteration budget exhausted'')"
    by (simp add: fail_env_fields)
  have t: "tick (after_thread_id None w0) + 2 = 3" by (simp add: w0_fields)
  from post_root_loaded(2) [OF llm bad, unfolded fail_env_frames t]
  show ?thesis by simp
qed





text \<open>
  Claim C9. The context that \<open>POST /\<close> computes with \<open>reduce\<close> is the concatenation of
  the lines \<open>role: content\<close> of all the messages in order, and that context (not the last
  message) is the query of the agent that the request constructs, once the model is
  loaded.
\<close>

theorem post_root_forwards_all_messages:
  assumes "ChatModel_fromName e (if th = None \<or> th = Some [] then tick w + 1 else tick w)
             ''watsonx:ibm/granite-3-8b-instruct'' = Inr llm"
  shows "flatten_messages ms = context_lines ms
     \<and> agents (snd (handle e (PostRoot th (Some ms)) w)) = agents w @ [agent_input llm [] (context_lines ms)]"
proof -
  have fl: "flatten_messages ms = context_lines ms"
    using foldl_context[of "[]" ms] by (simp add: flatten_messages_def)
  have llm: "ChatModel_fromName e (tick (after_thread_id th w)) ''watsonx:ibm/granite-3-8b-instruct'' = Inr llm"
    using assms by simp
  from post_root_loaded(1)[OF llm, of ms] fl show ?thesis by simp
qed

theorem post_root_forwards_all_messages_witness:
  "flatten_messages [\<lparr>role = ''user'', content = ''hello''\<rparr>, \<lparr>role = ''assistant'', content = ''hi''\<rparr>,
                     \<lparr>role = ''user'', content = ''book a flight''\<rparr>]
     = ''user: hello'' @ nl @ ''assistant: hi'' @ nl @ ''user: book a flight'' @ nl
   \<and> map a_prompt (agents (snd (handle ok_env (PostRoot (Some ''thread-1'')
         (Some [\<lparr>role = ''user'', content = ''hello''\<rparr>, \<lparr>role = ''assistant'', content = ''hi''\<rparr>,
                \<lparr>role = ''user'', content = ''book a flight''\<rparr>])) w0)))
     = [systemPrompt (''user: hello'' @ nl @ ''assistant: hi'' @ nl @ ''user: book a flight'' @ nl)]"
proof -
  let ?ms = "[\<lparr>role = ''user'', content = ''hello''\<rparr>, \<lparr>role = ''assistant'', content = ''hi''\<rparr>,
              \<lparr>role = ''user'', content = ''book a flight''\<rparr>]"
  have llm: "ChatModel_fromName ok_env (if Some ''thread-1'' = None \<or> Some ''thread-1'' = Some [] then tick w0 + 1 else tick w0)
             ''watsonx:ibm/granite-3-8b-instruct'' = Inr ''watsonx:ibm/granite-3-8b-instruct''"
    by (rule ok_env_fields)
  have c: "context_lines ?ms = ''user: hello'' @ nl @ ''assistant: hi'' @ nl @ ''user: book a flight'' @ nl"
    by (simp add: context_lines_def)
  from post_root_forwards_all_messages [OF llm, of ?ms]
  show ?thesis by (simp add: c w0_fields agent_input_def)
qed

section \<open>Claims about the tools\<close>

text \<open>
  Claim C2, as amended. When the text of the instruction contains \<open>add\<close> (in any case),
  the count of the reminders is read before anything else, and when it is 10 or more the
  tool returns the fixed warning: the only statement passed to the database is the
  count, no model is called, and so no insertion is executed.
\<close>

theorem reminder_add_when_full:
  assumes inc: "js_includes (toLowerCase task) ''add''"
    and cnt: "db_all e (JStr ''SELECT COUNT(*) as total FROM reminders;'') (JArr []) (db s) = (Inr rows, d)"
    and rt: "JSON_parse e (JSON_stringify (JArr rows)) = Inr (JArr [JObj [(''total'', JNum n)]])"
    and full: "10 \<le> n"
  shows "ReminderTool_run e (Some task) s =
     (Inr (StringToolOutput too_many_message),
      s\<lparr>db := d, sql_log := sql_log s @ [(JStr ''SELECT COUNT(*) as total FROM reminders;'', JArr [])]\<rparr>)"
proof -
  have ne: "task \<noteq> []" using inc by (rule js_includes_nonempty)
  have q: "ReminderTool_query e (JStr ''SELECT COUNT(*) as total FROM reminders;'') JUndefined s =
      (Inr (JSON_stringify (JArr rows)),
       s\<lparr>db := d, sql_log := sql_log s @ [(JStr ''SELECT COUNT(*) as total FROM reminders;'', JArr [])]\<rparr>)"
    using cnt by (simp add: ReminderTool_query_def del: JSON_stringify.simps)
  have p: "JSON_parse_text e (JSON_stringify (JArr rows)) = Inr (JArr [JObj [(''total'', JNum n)]])"
    using rt by (simp add: JSON_parse_text_def)
  have g: "js_ge (JNum n) maxReminders" using full by (simp add: js_ge_def maxReminders_def)
  show ?thesis
    using ne inc g
    by (simp add: ReminderTool_run_def then_do_def q p lift_def ret_def del: JSON_stringify.simps)
qed

theorem reminder_add_when_full_witness:
  "ReminderTool_run toy_env (Some ''Add a reminder to call mom'') ten_reminders =
     (Inr (StringToolOutput too_many_message),
      ten_reminders\<lparr>sql_log := [(JStr ''SELECT COUNT(*) as total FROM reminders;'', JArr [])]\<rparr>)
   \<and> length (db ten_reminders) = 10"
proof -
  have cnt: "db_all toy_env (JStr ''SELECT COUNT(*) as total FROM reminders;'') (JArr []) (db ten_reminders)
      = (Inr [JObj [(''total'', JNum 10)]], db ten_reminders)"
    by (simp add: toy_env_def toy_db_all_def ten_reminders_def)
  have rt: "JSON_parse toy_env (JSON_stringify (JArr [JObj [(''total'', JNum 10)]])) = Inr (JArr [JObj [(''total'', JNum 10)]])"
    by (simp add: toy_env_def toy_parse_values del: JSON_stringify.simps)
  have full: "(10::int) \<le> 10" by simp
  from reminder_add_when_full [OF add_in_add cnt rt full]
  show ?thesis by (simp add: ten_reminders_def)
qed

text \<open>
  The claim C2 as stated (the count never exceeds 10 over any sequence of invocations)
  fails for an instruction that asks for a new reminder without the word \<open>add\<close>: the
  count is not read, the generated \<open>INSERT\<close> is executed, and a table of 10 rows has 11.
\<close>

theorem reminder_eleventh_without_add:
  "length (db ten_reminders) = 10
   \<and> fst (ReminderTool_run toy_env (Some ''Remind me to call mom at 6pm'') ten_reminders)
       = Inr (StringToolOutput ''Your reminder to call mom is set.'')
   \<and> length (db (snd (ReminderTool_run toy_env (Some ''Remind me to call mom at 6pm'') ten_reminders))) = 11
   \<and> map fst (sql_log (snd (ReminderTool_run toy_env (Some ''Remind me to call mom at 6pm'') ten_reminders)))
       = [JStr ''SELECT * FROM reminders;'', JStr insert_sql]"
  by (simp add: ReminderTool_run_def Let_def no_add_in_remind after_capacity_def after_validation_def
      generateQuery_def then_do_def ret_def lift_def OllamaChatModel_create_def ReminderTool_query_def JSON_parse_text_def
      toy_env_def toy_llm_def toy_db_all_def ten_reminders_def ex_validation toy_parse_values
      trim_final insert_sql_def
      del: JSON_stringify.simps)

text \<open>
  Claim C5, as amended. In both stages that extract a JSON object from the answer of a
  model, a failure of \<open>JSON.parse\<close> on the extracted text ends the stage with the
  \<open>SyntaxError\<close> that \<open>JSON.parse\<close> throws, as it is; the text extracted from an answer
  without a balanced object is the empty text. The validation stage then has run no
  further step, the generation stage has made its one call of the model.
\<close>

theorem parse_failure_is_syntax_error:
  "(JSON_parse e (extracted (js_trim v)) = Inl m \<longrightarrow>
      after_validation e task st v s = (Inl (SyntaxError m), s))
   \<and> (llm_create e (rtick s) ''codellama:7b'' (generate_prompt d) = Inr text \<and>
      JSON_parse e (extracted text) = Inl m \<longrightarrow>
      generateQuery e d s =
        (Inl (SyntaxError m),
         s\<lparr>rtick := rtick s + 1, llm_log := llm_log s @ [(''codellama:7b'', generate_prompt d)]\<rparr>))
   \<and> (regex_match text = None \<longrightarrow> extracted text = [])"
  by (simp add: after_validation_def generateQuery_def then_do_def lift_def OllamaChatModel_create_def
      JSON_parse_text_def extracted_def)

theorem parse_failure_is_syntax_error_witness:
  "after_validation prose_env ''check my reminders'' ''4. Check Reminders: list all reminders''
       ''I could not find a matching reminder.'' (no_reminders\<lparr>rtick := 2\<rparr>)
     = (Inl (SyntaxError ''Unexpected end of JSON input''), no_reminders\<lparr>rtick := 2\<rparr>)
   \<and> generateQuery prose_env ''4. Check Reminders: list all reminders'' (no_reminders\<lparr>rtick := 2\<rparr>) =
        (Inl (SyntaxError ''Unexpected end of JSON input''),
         no_reminders\<lparr>rtick := 3, llm_log := [(''codellama:7b'', generate_prompt ''4. Check Reminders: list all reminders'')]\<rparr>)
   \<and> extracted ''I could not find a matching reminder.'' = []"
proof -
  let ?s = "no_reminders\<lparr>rtick := 2\<rparr>"
  have a: "JSON_parse prose_env (extracted (js_trim ''I could not find a matching reminder.'')) = Inl ''Unexpected end of JSON input''"
    by (simp add: ex_prose prose_env_def toy_parse_values)
  have x: "extracted ''I could not find a matching reminder.'' = []"
    by (simp add: extracted_def)
  have b: "llm_create prose_env (rtick ?s) ''codellama:7b'' (generate_prompt ''4. Check Reminders: list all reminders'')
      = Inr ''I could not find a matching reminder.''"
    by (simp add: prose_env_def prose_llm_def)
  have c: "JSON_parse prose_env (extracted ''I could not find a matching reminder.'') = Inl ''Unexpected end of JSON input''"
    by (simp add: x prose_env_def toy_parse_values)
  have r: "regex_match ''I could not find a matching reminder.'' = None" by simp
  from parse_failure_is_syntax_error [of prose_env "''I could not find a matching reminder.''"
      "''Unexpected end of JSON input''" "''check my reminders''" "''4. Check Reminders: list all reminders''"
      ?s "''4. Check Reminders: list all reminders''" "''I could not find a matching reminder.''"]
    a b c r
  show ?thesis by (simp add: no_reminders_def)
qed

text \<open>
  The claim C5 as stated (a distinguished error of the tool) fails: when the validating
  model answers with a sentence, the run of the tool rejects with a \<open>SyntaxError\<close>, not
  with a \<open>ToolInputValidationError\<close>.
\<close>

theorem reminder_prose_reply_raw_error:
  "fst (ReminderTool_run prose_env (Some ''check my reminders'') no_reminders)
     = Inl (SyntaxError ''Unexpected end of JSON input'')"
  by (simp add: ReminderTool_run_def Let_def no_add_in_check after_capacity_def after_validation_def
      then_do_def ret_def lift_def OllamaChatModel_create_def ReminderTool_query_def JSON_parse_text_def
      prose_env_def prose_llm_def toy_db_all_def no_reminders_def ex_prose toy_parse_values
      del: JSON_stringify.simps)



text \<open>
  Claim C10. For an empty \<open>naturalLanguageInput\<close> (also for a missing one) the tool returns
  the text \<open>No input was found, nothing was done.\<close> after the warning sign, and the state
  is unchanged: no statement is passed to the database and no model is called.
\<close>

theorem reminder_empty_input:
  "ReminderTool_run e (Some []) s = (Inr (StringToolOutput no_input_message), s)
   \<and> ReminderTool_run e None s = (Inr (StringToolOutput no_input_message), s)"
  by (simp add: ReminderTool_run_def ret_def)

theorem reminder_empty_input_witness:
  "ReminderTool_run toy_env (Some []) ten_reminders = (Inr (StringToolOutput no_input_message), ten_reminders)
   \<and> sql_log ten_reminders = [] \<and> llm_log ten_reminders = []
   \<and> no_input_message = [CHR 0xE2, CHR 0x9A, CHR 0xA0, CHR 0xEF, CHR 0xB8, CHR 0x8F] @ '' No input was found, nothing was done.''"
  using reminder_empty_input [of toy_env ten_reminders]
  by (simp add: ten_reminders_def no_input_message_def)

end
